theory Spec2Isabelle
  imports Complex_Main "HOL-Library.Multiset"
begin

section \<open>Data model (prisma/migrations/20250921171157\_init/migration.sql)\<close>

text \<open>
  Modelled from the spec: \<open>Prisma.Decimal\<close> belongs to the \<open>@prisma/client\<close> dependency and
  is not among the sources. Every price comes from a \<open>DECIMAL(10,2)\<close> column, so a value is
  kept as its number of hundredths; \<open>plus\<close> and \<open>times\<close> (by an integer quantity) are the
  exact operations the spec gives its Money type.
\<close>

datatype decimal = Centavos (centavos: int)

text \<open>Modelled from the spec: \<open>Decimal.plus\<close>, the exact sum of two amounts.\<close>

definition plus_decimal :: "decimal \<Rightarrow> decimal \<Rightarrow> decimal" where
  "plus_decimal a b = Centavos (centavos a + centavos b)"

text \<open>Modelled from the spec: \<open>Decimal.times\<close> by an integer quantity, the exact product.\<close>

definition times_decimal :: "decimal \<Rightarrow> int \<Rightarrow> decimal" where
  "times_decimal a q = Centavos (centavos a * q)"

text \<open>The number a decimal stands for: its hundredths divided by 100.\<close>

definition valor :: "decimal \<Rightarrow> rat" where
  "valor x = of_int (centavos x) / 100"

text \<open>Table \<open>clientes\<close>.\<close>

record cliente =
  cliente_id :: int
  cliente_nome :: string
  metodoPagamento :: string

text \<open>Table \<open>produtos\<close>; \<open>preco\<close> is \<open>DECIMAL(10,2)\<close>.\<close>

record produto =
  produto_id :: int
  produto_nome :: string
  preco :: decimal

text \<open>Table \<open>carrinhos\<close>, primary key \<open>(clienteId, produtoId)\<close>.\<close>

record carrinhoItem =
  item_clienteId :: int
  item_produtoId :: int
  quantidade :: int

text \<open>A cart row as \<open>findMany\<close> returns it with \<open>include: { produto: true }\<close>.\<close>

record carrinhoItemInclude = carrinhoItem +
  item_produto :: produto

text \<open>One object of the \<open>itensComprados\<close> JSON array (simulacao.js, lines 43-48).\<close>

record itemComprado =
  ic_id :: int
  ic_nome :: string
  ic_preco :: decimal
  ic_quantidade :: int

text \<open>Table \<open>compras\<close>; \<open>itens_comprados\<close> is a \<open>JSONB\<close> column holding the array by value.\<close>

record compra =
  compra_id :: int
  compra_clienteId :: int
  data :: nat
  valorTotal :: decimal
  itensComprados :: "itemComprado list"

record db =
  clientes :: "cliente list"
  produtos :: "produto list"
  carrinhos :: "carrinhoItem list"
  compras :: "compra list"

text \<open>
  The values a column takes: \<open>INTEGER\<close> is a signed 32-bit integer, and \<open>DECIMAL(10,2)\<close>
  holds amounts of absolute value below 100000000.00, that is below \<open>10 ^ 10\<close> hundredths.
\<close>

definition int4 :: "int \<Rightarrow> bool" where
  "int4 n = (- 2147483648 \<le> n \<and> n \<le> 2147483647)"

definition cabe_decimal_10_2 :: "decimal \<Rightarrow> bool" where
  "cabe_decimal_10_2 x = (\<bar>centavos x\<bar> < 10000000000)"

section \<open>Errors and the persistence calls\<close>

text \<open>
  The handler throws one error of its own (line 35); every other error comes out of an awaited
  Prisma call. The \<open>catch\<close> block reads only \<open>error.message\<close>.
\<close>

datatype error = CarrinhoVazio | PrismaError string

definition msg_carrinho_vazio :: string where
  "msg_carrinho_vazio =
     ''O carrinho est'' @ [CHR 0xE1] @ '' vazio. Nenhuma compra foi realizada.''"

fun message :: "error \<Rightarrow> string" where
  "message CarrinhoVazio = msg_carrinho_vazio"
| "message (PrismaError m) = m"

text \<open>
  The three awaited calls of the transaction body. A call fails for one of two reasons. The
  store may be unable to complete it (a lost connection, a timeout): that is decided outside
  the program, so each call takes an oracle that names, for the calls that fail, the message
  of the error raised. Or the value handed to the call does not fit its column: that is
  decided by the input, and is written into the call.
\<close>

datatype db_call = FindMany | Create | DeleteMany

type_synonym faults = "db_call \<Rightarrow> string option"

definition no_faults :: faults where
  "no_faults = (\<lambda>_. None)"

text \<open>
  \<open>include: { produto: true }\<close> joins each row with its product, a required relation.
  The foreign key \<open>carrinhos_produtoId_fkey\<close> (migration.sql, line 46) keeps the product
  present. Should a row come without one, the call is taken to raise an error (no property
  below depends on its message), so that no line is ever priced without a product.
\<close>

definition msg_produto_ausente :: string where
  "msg_produto_ausente = ''Inconsistent query result: Field produto is required to return data''"

fun include_produto :: "produto list \<Rightarrow> carrinhoItem list \<Rightarrow> error + carrinhoItemInclude list" where
  "include_produto ps [] = Inr []"
| "include_produto ps (i # rest) =
     (case find (\<lambda>p. produto_id p = item_produtoId i) ps of
        None \<Rightarrow> Inl (PrismaError msg_produto_ausente)
      | Some p \<Rightarrow>
          (case include_produto ps rest of
             Inl e \<Rightarrow> Inl e
           | Inr js \<Rightarrow>
               Inr (\<lparr> item_clienteId = item_clienteId i, item_produtoId = item_produtoId i,
                      quantidade = quantidade i, item_produto = p \<rparr> # js)))"

definition itens_do_cliente :: "int \<Rightarrow> db \<Rightarrow> carrinhoItem list" where
  "itens_do_cliente clienteId d = filter (\<lambda>i. item_clienteId i = clienteId) (carrinhos d)"

text \<open>
  \<open>findMany\<close> with \<open>where: { clienteId }\<close>. The column \<open>carrinhos.clienteId\<close> is
  \<open>INTEGER\<close> (migration.sql, line 21): an id beyond 32 bits is refused with an error
  before any row is read (the message is abridged).
\<close>

definition msg_fora_int4 :: string where
  "msg_fora_int4 = ''Unable to fit integer value into an INT4 (32-bit signed integer)''"

definition carrinhoItem_findMany ::
  "faults \<Rightarrow> int \<Rightarrow> db \<Rightarrow> db \<times> (error + carrinhoItemInclude list)" where
  "carrinhoItem_findMany f clienteId d =
     (if \<not> int4 clienteId then (d, Inl (PrismaError msg_fora_int4))
      else
        (case f FindMany of
           Some m \<Rightarrow> (d, Inl (PrismaError m))
         | None \<Rightarrow> (d, include_produto (produtos d) (itens_do_cliente clienteId d))))"

text \<open>
  \<open>compra.create\<close>: the row gets its \<open>id\<close> from the \<open>SERIAL\<close> sequence and its \<open>data\<close> from
  \<open>CURRENT_TIMESTAMP\<close>; both are supplied by the database and taken here as parameters.
  The column \<open>valor_total\<close> is \<open>DECIMAL(10,2)\<close> (migration.sql, line 33): the insert of a
  total that does not fit is rejected (the message is abridged) and no row is written.
\<close>

definition msg_numeric_overflow :: string where
  "msg_numeric_overflow = ''numeric field overflow''"

definition compra_create ::
  "faults \<Rightarrow> nat \<Rightarrow> int \<Rightarrow> int \<Rightarrow> decimal \<Rightarrow> itemComprado list \<Rightarrow> db \<Rightarrow> db \<times> (error + compra)" where
  "compra_create f agora novoId clienteId vTotal itens d =
     (case f Create of
        Some m \<Rightarrow> (d, Inl (PrismaError m))
      | None \<Rightarrow>
          if \<not> cabe_decimal_10_2 vTotal then (d, Inl (PrismaError msg_numeric_overflow))
          else
            (let novaCompra = \<lparr> compra_id = novoId, compra_clienteId = clienteId, data = agora,
                                 valorTotal = vTotal, itensComprados = itens \<rparr>
             in (d\<lparr> compras := compras d @ [novaCompra] \<rparr>, Inr novaCompra)))"

text \<open>
  \<open>deleteMany\<close> with the same \<open>where\<close>; the handler reaches it only with an id that
  \<open>findMany\<close> has accepted.
\<close>

definition carrinhoItem_deleteMany :: "faults \<Rightarrow> int \<Rightarrow> db \<Rightarrow> db \<times> (error + nat)" where
  "carrinhoItem_deleteMany f clienteId d =
     (case f DeleteMany of
        Some m \<Rightarrow> (d, Inl (PrismaError m))
      | None \<Rightarrow>
          (d\<lparr> carrinhos := filter (\<lambda>i. item_clienteId i \<noteq> clienteId) (carrinhos d) \<rparr>,
           Inr (length (itens_do_cliente clienteId d))))"

section \<open>POST /simulacao/sair (src/routes/simulacao.js, lines 22-73)\<close>

text \<open>
  Lines 39-49: the \<open>map\<close> callback adds each subtotal to \<open>valorTotal\<close> and returns the
  object kept in \<open>itensComprados\<close>. The accumulator is threaded through the list in order.
\<close>

definition item_comprado :: "carrinhoItemInclude \<Rightarrow> itemComprado" where
  "item_comprado item =
     \<lparr> ic_id = produto_id (item_produto item), ic_nome = produto_nome (item_produto item),
       ic_preco = preco (item_produto item), ic_quantidade = quantidade item \<rparr>"

fun map_itens :: "carrinhoItemInclude list \<Rightarrow> decimal \<Rightarrow> itemComprado list \<times> decimal" where
  "map_itens [] vTotal = ([], vTotal)"
| "map_itens (item # rest) vTotal =
     (let subtotal = times_decimal (preco (item_produto item)) (quantidade item);
          vTotal' = plus_decimal vTotal subtotal;
          (itens, final) = map_itens rest vTotal'
      in (item_comprado item # itens, final))"

text \<open>
  The callback given to \<open>prisma.$transaction\<close> (lines 27-66). It returns the state its calls
  have produced so far together with the value returned or the error thrown.
\<close>

definition sair_tx :: "faults \<Rightarrow> nat \<Rightarrow> int \<Rightarrow> int \<Rightarrow> db \<Rightarrow> db \<times> (error + compra)" where
  "sair_tx f agora novoId clienteId d =
     (case carrinhoItem_findMany f clienteId d of
        (d1, Inl e) \<Rightarrow> (d1, Inl e)
      | (d1, Inr itensCarrinho) \<Rightarrow>
          if length itensCarrinho = 0 then (d1, Inl CarrinhoVazio)
          else
            (case map_itens itensCarrinho (Centavos 0) of
               (itens, vTotal) \<Rightarrow>
                 (case compra_create f agora novoId clienteId vTotal itens d1 of
                    (d2, Inl e) \<Rightarrow> (d2, Inl e)
                  | (d2, Inr novaCompra) \<Rightarrow>
                      (case carrinhoItem_deleteMany f clienteId d2 of
                         (d3, Inl e) \<Rightarrow> (d3, Inl e)
                       | (d3, Inr _) \<Rightarrow> (d3, Inr novaCompra)))))"

text \<open>
  \<open>prisma.$transaction\<close>: the writes of the callback are kept when it returns and dropped
  when it throws.
\<close>

definition transaction :: "(db \<Rightarrow> db \<times> (error + 'a)) \<Rightarrow> db \<Rightarrow> db \<times> (error + 'a)" where
  "transaction body d =
     (case body d of
        (d', Inr r) \<Rightarrow> (d', Inr r)
      | (d', Inl e) \<Rightarrow> (d, Inl e))"

text \<open>The response: \<open>res.status(201).json(compra)\<close> or \<open>res.status(400).json({ error: message })\<close>.\<close>

datatype body = CompraJson compra | ObjectJson "(string \<times> string) list"

datatype response = Response (status: nat) (body: body)

definition sair :: "faults \<Rightarrow> nat \<Rightarrow> int \<Rightarrow> int \<Rightarrow> db \<Rightarrow> db \<times> response" where
  "sair f agora novoId clienteId d =
     (case transaction (sair_tx f agora novoId clienteId) d of
        (d', Inr compraRealizada) \<Rightarrow> (d', Response 201 (CompraJson compraRealizada))
      | (d', Inl e) \<Rightarrow> (d', Response 400 (ObjectJson [(''error'', message e)])))"

section \<open>Two calls for the same shopper\<close>

text \<open>
  The callback in two parts: what it reads and computes (lines 29-49), and what it writes
  (lines 52-65) from the values computed.
\<close>

definition sair_leitura :: "faults \<Rightarrow> int \<Rightarrow> db \<Rightarrow> error + (itemComprado list \<times> decimal)" where
  "sair_leitura f clienteId d =
     (case carrinhoItem_findMany f clienteId d of
        (d1, Inl e) \<Rightarrow> Inl e
      | (d1, Inr itensCarrinho) \<Rightarrow>
          if length itensCarrinho = 0 then Inl CarrinhoVazio
          else Inr (map_itens itensCarrinho (Centavos 0)))"

definition sair_escrita ::
  "faults \<Rightarrow> nat \<Rightarrow> int \<Rightarrow> int \<Rightarrow> itemComprado list \<times> decimal \<Rightarrow> db \<Rightarrow> db \<times> (error + compra)" where
  "sair_escrita f agora novoId clienteId lido d =
     (case compra_create f agora novoId clienteId (snd lido) (fst lido) d of
        (d2, Inl e) \<Rightarrow> (d2, Inl e)
      | (d2, Inr novaCompra) \<Rightarrow>
          (case carrinhoItem_deleteMany f clienteId d2 of
             (d3, Inl e) \<Rightarrow> (d3, Inl e)
           | (d3, Inr _) \<Rightarrow> (d3, Inr novaCompra)))"

text \<open>Lines 68-72: the answer to what the transaction returned or threw.\<close>

definition sair_resposta :: "error + compra \<Rightarrow> response" where
  "sair_resposta r =
     (case r of
        Inr compraRealizada \<Rightarrow> Response 201 (CompraJson compraRealizada)
      | Inl e \<Rightarrow> Response 400 (ObjectJson [(''error'', message e)]))"

text \<open>
  Two calls for the same shopper that overlap. Line 27 passes no isolation level to
  \<open>prisma.$transaction\<close> and no statement of the callback takes a lock, so nothing in the
  handler keeps the second call from reading the cart before the first has written. In this
  run both calls read the database as found; then the first writes and commits; then the
  second writes, from what it has read, and commits. The result is the final database and
  the two answers.
\<close>

definition sair_sobrepostas ::
  "faults \<Rightarrow> faults \<Rightarrow> nat \<Rightarrow> int \<Rightarrow> int \<Rightarrow> int \<Rightarrow> db \<Rightarrow> db \<times> response \<times> response" where
  "sair_sobrepostas fA fB agora novoIdA novoIdB clienteId d =
     (let lidoA = sair_leitura fA clienteId d;
          lidoB = sair_leitura fB clienteId d;
          (dA, rA) = (case lidoA of
                        Inl e \<Rightarrow> (d, Inl e)
                      | Inr x \<Rightarrow> transaction (sair_escrita fA agora novoIdA clienteId x) d);
          (dB, rB) = (case lidoB of
                        Inl e \<Rightarrow> (dA, Inl e)
                      | Inr x \<Rightarrow> transaction (sair_escrita fB agora novoIdB clienteId x) dA)
      in (dB, sair_resposta rA, sair_resposta rB))"

section \<open>Schema invariants\<close>

text \<open>The foreign key \<open>carrinhos_produtoId_fkey\<close>: every cart row names a product of the catalog.\<close>

definition fk_carrinhos_produtos :: "db \<Rightarrow> bool" where
  "fk_carrinhos_produtos d =
     list_all (\<lambda>i. list_ex (\<lambda>p. produto_id p = item_produtoId i) (produtos d)) (carrinhos d)"

text \<open>The subtotal of one stored line, in hundredths: unit price times quantity.\<close>

definition subtotal_centavos :: "itemComprado \<Rightarrow> int" where
  "subtotal_centavos l = centavos (ic_preco l) * ic_quantidade l"

section \<open>The purchase the spec asks for\<close>

text \<open>
  These two definitions follow the spec's words, not the handler. The snapshot of a cart line
  is the product's id, its name and its unit price as the catalog has them, with the
  quantity of the line. The total of a cart is the sum, over the shopper's lines, of unit
  price times quantity, in hundredths.
\<close>

definition spec_snapshot :: "produto list \<Rightarrow> carrinhoItem \<Rightarrow> itemComprado option" where
  "spec_snapshot ps i =
     map_option
       (\<lambda>p. \<lparr> ic_id = produto_id p, ic_nome = produto_nome p, ic_preco = preco p,
               ic_quantidade = quantidade i \<rparr>)
       (find (\<lambda>p. produto_id p = item_produtoId i) ps)"

definition spec_total_centavos :: "int \<Rightarrow> db \<Rightarrow> int" where
  "spec_total_centavos clienteId d =
     sum_list
       (map (\<lambda>i. case find (\<lambda>p. produto_id p = item_produtoId i) (produtos d) of
                    None \<Rightarrow> 0
                  | Some p \<Rightarrow> centavos (preco p) * quantidade i)
          (itens_do_cliente clienteId d))"

section \<open>The error kinds of the spec\<close>

text \<open>
  The spec's external interface gives every failure a machine-readable kind. This predicate
  follows the spec's words: a response body carries a kind when one of its fields holds one of
  the three kind names.
\<close>

definition spec_kinds :: "string list" where
  "spec_kinds = [''EMPTY_CART'', ''NOT_FOUND'', ''INTERNAL'']"

fun spec_carries_kind :: "body \<Rightarrow> bool" where
  "spec_carries_kind (CompraJson c) = False"
| "spec_carries_kind (ObjectJson kvs) = list_ex (\<lambda>kv. snd kv \<in> set spec_kinds) kvs"

definition spec_client_error :: "nat \<Rightarrow> bool" where
  "spec_client_error s = (400 \<le> s \<and> s < 500)"

definition spec_server_error :: "nat \<Rightarrow> bool" where
  "spec_server_error s = (500 \<le> s \<and> s < 600)"

section \<open>Scenario data\<close>

text \<open>
  Clients and products of the seed script; the cart of the spec's scenario: product 1 at
  799.90 once and product 2 at 499.90 twice, for client 3.
\<close>

definition db_cenario :: db where
  "db_cenario =
     \<lparr> clientes =
         [\<lparr> cliente_id = 1, cliente_nome = ''Moises'', metodoPagamento = ''credito_final_4242'' \<rparr>,
          \<lparr> cliente_id = 3, cliente_nome = ''Liliana'', metodoPagamento = ''credito_final_8987'' \<rparr>],
       produtos =
         [\<lparr> produto_id = 1, produto_nome = ''Camisa de Seda'', preco = Centavos 79990 \<rparr>,
          \<lparr> produto_id = 2, produto_nome = ''Calca Jeans'', preco = Centavos 49990 \<rparr>],
       carrinhos =
         [\<lparr> item_clienteId = 3, item_produtoId = 1, quantidade = 1 \<rparr>,
          \<lparr> item_clienteId = 3, item_produtoId = 2, quantidade = 2 \<rparr>],
       compras = [] \<rparr>"

text \<open>The catalog after the price of product 1 has gone from 799.90 to 899.90.\<close>

definition produtos_reajustados :: "produto list" where
  "produtos_reajustados =
     [\<lparr> produto_id = 1, produto_nome = ''Camisa de Seda'', preco = Centavos 89990 \<rparr>,
      \<lparr> produto_id = 2, produto_nome = ''Calca Jeans'', preco = Centavos 49990 \<rparr>]"

text \<open>The two lines of that cart as a purchase stores them.\<close>

definition linhas_cenario :: "itemComprado list" where
  "linhas_cenario =
     [\<lparr> ic_id = 1, ic_nome = ''Camisa de Seda'', ic_preco = Centavos 79990, ic_quantidade = 1 \<rparr>,
      \<lparr> ic_id = 2, ic_nome = ''Calca Jeans'', ic_preco = Centavos 49990, ic_quantidade = 2 \<rparr>]"

text \<open>
  A cart whose total does not fit \<open>valor_total\<close>: one product at 99999999.99, the largest
  price of \<open>DECIMAL(10,2)\<close>, taken twice.
\<close>

definition db_estouro :: db where
  "db_estouro =
     \<lparr> clientes =
         [\<lparr> cliente_id = 3, cliente_nome = ''Liliana'', metodoPagamento = ''credito_final_8987'' \<rparr>],
       produtos =
         [\<lparr> produto_id = 1, produto_nome = ''Camisa de Seda'', preco = Centavos 9999999999 \<rparr>],
       carrinhos =
         [\<lparr> item_clienteId = 3, item_produtoId = 1, quantidade = 2 \<rparr>],
       compras = [] \<rparr>"

text \<open>A store whose \<open>compra.create\<close> call is rejected.\<close>

definition create_falha :: faults where
  "create_falha = no_faults(Create := Some ''Can't reach database server'')"

section \<open>Properties of the persistence calls and of the handler\<close>

lemma map_itens_fst: "fst (map_itens items v) = map item_comprado items"
  by (induction items arbitrary: v) (simp_all add: Let_def case_prod_beta)

lemma map_itens_snd:
  "centavos (snd (map_itens items v)) =
     centavos v + sum_list (map (subtotal_centavos \<circ> item_comprado) items)"
  by (induction items arbitrary: v)
     (simp_all add: Let_def case_prod_beta plus_decimal_def times_decimal_def
        subtotal_centavos_def item_comprado_def)

lemma include_produto_length:
  "include_produto ps rows = Inr js \<Longrightarrow> length js = length rows"
  by (induction rows arbitrary: js) (auto split: option.splits sum.splits)

lemma include_produto_fk:
  "list_all (\<lambda>i. list_ex (\<lambda>p. produto_id p = item_produtoId i) ps) rows \<Longrightarrow>
   \<exists>js. include_produto ps rows = Inr js"
proof (induction rows)
  case Nil
  then show ?case by simp
next
  case (Cons i rows)
  then obtain js where js: "include_produto ps rows = Inr js" by auto
  from Cons.prems have "list_ex (\<lambda>p. produto_id p = item_produtoId i) ps" by simp
  then obtain p where "find (\<lambda>p. produto_id p = item_produtoId i) ps = Some p"
    by (cases "find (\<lambda>p. produto_id p = item_produtoId i) ps")
       (auto simp: find_None_iff list_ex_iff)
  with js show ?case by simp
qed

lemma include_produto_snapshot:
  "include_produto ps rows = Inr js \<Longrightarrow>
   map Some (map item_comprado js) = map (spec_snapshot ps) rows"
  by (induction rows arbitrary: js)
     (auto simp: spec_snapshot_def item_comprado_def split: option.splits sum.splits)

lemma include_produto_total:
  "include_produto ps rows = Inr js \<Longrightarrow>
   sum_list (map (subtotal_centavos \<circ> item_comprado) js) =
     sum_list (map (\<lambda>i. case find (\<lambda>p. produto_id p = item_produtoId i) ps of
                          None \<Rightarrow> 0
                        | Some p \<Rightarrow> centavos (preco p) * quantidade i) rows)"
  by (induction rows arbitrary: js)
     (auto simp: subtotal_centavos_def item_comprado_def split: option.splits sum.splits)

lemma map_itens_spec_total:
  "include_produto (produtos d) (itens_do_cliente cid d) = Inr js \<Longrightarrow>
   snd (map_itens js (Centavos 0)) = Centavos (spec_total_centavos cid d)"
  by (rule decimal.expand) (simp add: map_itens_snd spec_total_centavos_def include_produto_total)

lemmas sair_defs = sair_def transaction_def sair_tx_def carrinhoItem_findMany_def
  compra_create_def carrinhoItem_deleteMany_def Let_def case_prod_beta

lemma sair_sucesso:
  assumes "int4 cid" "f FindMany = None" "f Create = None" "f DeleteMany = None"
      and "include_produto (produtos d) (itens_do_cliente cid d) = Inr js" "js \<noteq> []"
      and "cabe_decimal_10_2 (snd (map_itens js (Centavos 0)))"
  shows "sair f agora novoId cid d =
     (d\<lparr> compras := compras d @ [\<lparr> compra_id = novoId, compra_clienteId = cid, data = agora,
                               valorTotal = snd (map_itens js (Centavos 0)),
                               itensComprados = fst (map_itens js (Centavos 0)) \<rparr>],
         carrinhos := filter (\<lambda>i. item_clienteId i \<noteq> cid) (carrinhos d) \<rparr>,
      Response 201 (CompraJson \<lparr> compra_id = novoId, compra_clienteId = cid, data = agora,
                               valorTotal = snd (map_itens js (Centavos 0)),
                               itensComprados = fst (map_itens js (Centavos 0)) \<rparr>))"
  using assms by (simp add: sair_defs)

lemma sair_fora_int4:
  "\<not> int4 cid \<Longrightarrow>
   sair f agora novoId cid d = (d, Response 400 (ObjectJson [(''error'', msg_fora_int4)]))"
  by (simp add: sair_defs)

lemma sair_findMany_falha:
  "int4 cid \<Longrightarrow> f FindMany = Some m \<Longrightarrow>
   sair f agora novoId cid d = (d, Response 400 (ObjectJson [(''error'', m)]))"
  by (simp add: sair_defs)

lemma sair_include_falha:
  "int4 cid \<Longrightarrow> f FindMany = None \<Longrightarrow>
   include_produto (produtos d) (itens_do_cliente cid d) = Inl e \<Longrightarrow>
   sair f agora novoId cid d = (d, Response 400 (ObjectJson [(''error'', message e)]))"
  by (simp add: sair_defs)

lemma sair_vazio:
  "int4 cid \<Longrightarrow> f FindMany = None \<Longrightarrow>
   include_produto (produtos d) (itens_do_cliente cid d) = Inr [] \<Longrightarrow>
   sair f agora novoId cid d = (d, Response 400 (ObjectJson [(''error'', msg_carrinho_vazio)]))"
  by (simp add: sair_defs)

lemma sair_create_falha:
  "int4 cid \<Longrightarrow> f FindMany = None \<Longrightarrow>
   include_produto (produtos d) (itens_do_cliente cid d) = Inr js \<Longrightarrow>
   js \<noteq> [] \<Longrightarrow> f Create = Some m \<Longrightarrow>
   sair f agora novoId cid d = (d, Response 400 (ObjectJson [(''error'', m)]))"
  by (simp add: sair_defs)

lemma sair_estouro:
  "int4 cid \<Longrightarrow> f FindMany = None \<Longrightarrow>
   include_produto (produtos d) (itens_do_cliente cid d) = Inr js \<Longrightarrow>
   js \<noteq> [] \<Longrightarrow> f Create = None \<Longrightarrow> \<not> cabe_decimal_10_2 (snd (map_itens js (Centavos 0))) \<Longrightarrow>
   sair f agora novoId cid d = (d, Response 400 (ObjectJson [(''error'', msg_numeric_overflow)]))"
  by (simp add: sair_defs)

lemma sair_deleteMany_falha:
  "int4 cid \<Longrightarrow> f FindMany = None \<Longrightarrow>
   include_produto (produtos d) (itens_do_cliente cid d) = Inr js \<Longrightarrow>
   js \<noteq> [] \<Longrightarrow> f Create = None \<Longrightarrow> cabe_decimal_10_2 (snd (map_itens js (Centavos 0))) \<Longrightarrow>
   f DeleteMany = Some m \<Longrightarrow>
   sair f agora novoId cid d = (d, Response 400 (ObjectJson [(''error'', m)]))"
  by (simp add: sair_defs)

lemma sair_falha_ou_sucesso:
  "(\<exists>m. sair f agora novoId cid d = (d, Response 400 (ObjectJson [(''error'', m)]))) \<or>
   (\<exists>js. int4 cid \<and> f FindMany = None \<and> f Create = None \<and> f DeleteMany = None \<and>
      include_produto (produtos d) (itens_do_cliente cid d) = Inr js \<and> js \<noteq> [] \<and>
      cabe_decimal_10_2 (snd (map_itens js (Centavos 0))))"
proof (cases "int4 cid")
  case False
  then show ?thesis using sair_fora_int4 by blast
next
  case id: True
  show ?thesis
  proof (cases "f FindMany")
    case (Some m)
    with id show ?thesis using sair_findMany_falha by blast
  next
    case fm: None
    show ?thesis
    proof (cases "include_produto (produtos d) (itens_do_cliente cid d)")
      case (Inl e)
      with id fm show ?thesis using sair_include_falha by blast
    next
      case (Inr js)
      show ?thesis
      proof (cases "js = []")
        case True
        with id fm Inr show ?thesis using sair_vazio by blast
      next
        case ne: False
        show ?thesis
        proof (cases "f Create")
          case (Some m)
          with id fm Inr ne show ?thesis using sair_create_falha by blast
        next
          case cr: None
          show ?thesis
          proof (cases "cabe_decimal_10_2 (snd (map_itens js (Centavos 0)))")
            case False
            with id fm Inr ne cr show ?thesis using sair_estouro by blast
          next
            case cb: True
            show ?thesis
            proof (cases "f DeleteMany")
              case (Some m)
              with id fm Inr ne cr cb show ?thesis using sair_deleteMany_falha by blast
            next
              case None
              with id fm Inr ne cr cb show ?thesis by blast
            qed
          qed
        qed
      qed
    qed
  qed
qed

lemma sair_efeito:
  assumes "sair f agora novoId clienteId d = (d', r)"
  shows "(\<exists>c. r = Response 201 (CompraJson c) \<and>
              compras d' = compras d @ [c] \<and>
              carrinhos d' = filter (\<lambda>i. item_clienteId i \<noteq> clienteId) (carrinhos d) \<and>
              clientes d' = clientes d \<and> produtos d' = produtos d)
       \<or> (\<exists>m. r = Response 400 (ObjectJson [(''error'', m)]) \<and> d' = d)"
proof -
  from sair_falha_ou_sucesso[of f agora novoId clienteId d]
  consider (falha) m where
      "sair f agora novoId clienteId d = (d, Response 400 (ObjectJson [(''error'', m)]))"
    | (sucesso) js where "int4 clienteId" "f FindMany = None" "f Create = None" "f DeleteMany = None"
      "include_produto (produtos d) (itens_do_cliente clienteId d) = Inr js" "js \<noteq> []"
      "cabe_decimal_10_2 (snd (map_itens js (Centavos 0)))"
    by blast
  then show ?thesis
  proof cases
    case falha
    with assms have "d' = d" "r = Response 400 (ObjectJson [(''error'', m)])" by simp_all
    then show ?thesis by simp
  next
    case sucesso
    from sair_sucesso[OF sucesso, of agora novoId] assms
    have "d' = d\<lparr> compras := compras d @ [\<lparr> compra_id = novoId, compra_clienteId = clienteId,
                 data = agora, valorTotal = snd (map_itens js (Centavos 0)),
                 itensComprados = fst (map_itens js (Centavos 0)) \<rparr>],
               carrinhos := filter (\<lambda>i. item_clienteId i \<noteq> clienteId) (carrinhos d) \<rparr>"
      and "r = Response 201 (CompraJson \<lparr> compra_id = novoId, compra_clienteId = clienteId,
                 data = agora, valorTotal = snd (map_itens js (Centavos 0)),
                 itensComprados = fst (map_itens js (Centavos 0)) \<rparr>)"
      by simp_all
    then show ?thesis by simp
  qed
qed

text \<open>What a call that answered 201 has read and written.\<close>

lemma sair_201:
  assumes "sair f agora novoId clienteId d = (d', Response 201 b)"
  obtains js where "int4 clienteId" "f FindMany = None" "f Create = None" "f DeleteMany = None"
    "include_produto (produtos d) (itens_do_cliente clienteId d) = Inr js" "js \<noteq> []"
    "cabe_decimal_10_2 (snd (map_itens js (Centavos 0)))"
    "b = CompraJson \<lparr> compra_id = novoId, compra_clienteId = clienteId, data = agora,
                      valorTotal = snd (map_itens js (Centavos 0)),
                      itensComprados = fst (map_itens js (Centavos 0)) \<rparr>"
    "d' = d\<lparr> compras := compras d @ [\<lparr> compra_id = novoId, compra_clienteId = clienteId,
                 data = agora, valorTotal = snd (map_itens js (Centavos 0)),
                 itensComprados = fst (map_itens js (Centavos 0)) \<rparr>],
               carrinhos := filter (\<lambda>i. item_clienteId i \<noteq> clienteId) (carrinhos d) \<rparr>"
proof -
  from assms sair_falha_ou_sucesso[of f agora novoId clienteId d]
  obtain js where h: "int4 clienteId" "f FindMany = None" "f Create = None" "f DeleteMany = None"
      "include_produto (produtos d) (itens_do_cliente clienteId d) = Inr js" "js \<noteq> []"
      "cabe_decimal_10_2 (snd (map_itens js (Centavos 0)))"
    by auto
  from sair_sucesso[OF h, of agora novoId] assms h that show thesis by simp
qed

text \<open>The handler is its two parts, one after the other, inside the transaction.\<close>

lemma sair_tx_partes:
  "sair_tx f agora novoId clienteId d =
     (case sair_leitura f clienteId d of
        Inl e \<Rightarrow> (d, Inl e)
      | Inr lido \<Rightarrow> sair_escrita f agora novoId clienteId lido d)"
  by (simp add: sair_tx_def sair_leitura_def sair_escrita_def carrinhoItem_findMany_def
        case_prod_beta split: option.splits sum.splits)

lemma sair_partes:
  "sair f agora novoId clienteId d =
     (case sair_leitura f clienteId d of
        Inl e \<Rightarrow> (d, sair_resposta (Inl e))
      | Inr lido \<Rightarrow>
          (case transaction (sair_escrita f agora novoId clienteId lido) d of
             (d', r) \<Rightarrow> (d', sair_resposta r)))"
  by (simp add: sair_def transaction_def sair_tx_partes sair_resposta_def
        split: sum.splits prod.splits)

lemma sair_por_tx:
  "sair f agora novoId clienteId d =
     (case sair_tx f agora novoId clienteId d of
        (d', Inr c) \<Rightarrow> (d', Response 201 (CompraJson c))
      | (d', Inl e) \<Rightarrow> (d, Response 400 (ObjectJson [(''error'', message e)])))"
  by (simp add: sair_def transaction_def split: sum.splits prod.splits)

lemma fk_itens_do_cliente:
  "fk_carrinhos_produtos d \<Longrightarrow>
   \<exists>js. include_produto (produtos d) (itens_do_cliente cid d) = Inr js"
  unfolding fk_carrinhos_produtos_def itens_do_cliente_def
  by (rule include_produto_fk) (simp add: list_all_iff)

lemmas cenario_defs = db_cenario_def no_faults_def itens_do_cliente_def fk_carrinhos_produtos_def
  subtotal_centavos_def item_comprado_def plus_decimal_def times_decimal_def int4_def
  cabe_decimal_10_2_def

lemma include_produto_catalogo:
  "include_produto ps rows = Inr js \<Longrightarrow> j \<in> set js \<Longrightarrow>
   find (\<lambda>p. produto_id p = item_produtoId j) ps = Some (item_produto j)"
  by (induction rows arbitrary: js) (auto split: option.splits sum.splits)

lemma include_produto_id:
  "include_produto ps rows = Inr js \<Longrightarrow> j \<in> set js \<Longrightarrow>
   produto_id (item_produto j) = item_produtoId j"
  by (drule (1) include_produto_catalogo) (auto simp: find_Some_iff)

lemma include_produto_map:
  "include_produto ps rows = Inr js \<Longrightarrow>
   js = map (\<lambda>i. \<lparr> item_clienteId = item_clienteId i, item_produtoId = item_produtoId i,
                    quantidade = quantidade i,
                    item_produto = the (find (\<lambda>p. produto_id p = item_produtoId i) ps) \<rparr>) rows"
  by (induction rows arbitrary: js) (auto split: option.splits sum.splits)

lemma include_produto_ok_iff:
  "(\<exists>js. include_produto ps rows = Inr js) \<longleftrightarrow>
   (\<forall>i \<in> set rows. find (\<lambda>p. produto_id p = item_produtoId i) ps \<noteq> None)"
  by (induction rows) (auto split: option.splits sum.splits)

lemma include_produto_perm:
  assumes "mset rows' = mset rows" and "include_produto ps rows = Inr js"
  shows "\<exists>js'. include_produto ps rows' = Inr js' \<and> mset js' = mset js"
proof -
  from assms(1) have "set rows' = set rows" by (rule mset_eq_setD)
  with assms(2) obtain js' where js': "include_produto ps rows' = Inr js'"
    using include_produto_ok_iff[of ps rows] include_produto_ok_iff[of ps rows'] by blast
  have "mset js' = mset js"
    unfolding include_produto_map[OF js'] include_produto_map[OF assms(2)]
    using assms(1) by (metis mset_map)
  with js' show ?thesis by blast
qed

lemma map_itens_total_mset:
  "centavos (snd (map_itens js (Centavos 0))) =
     sum_mset (image_mset (subtotal_centavos \<circ> item_comprado) (mset js))"
  by (simp add: map_itens_snd flip: sum_mset_sum_list mset_map)

lemma valor_plus: "valor (plus_decimal a b) = valor a + valor b"
  by (simp add: valor_def plus_decimal_def add_divide_distrib)

lemma valor_times: "valor (times_decimal a q) = valor a * of_int q"
  by (simp add: valor_def times_decimal_def)

lemma valor_map_itens:
  "valor (snd (map_itens items v)) =
     valor v + (\<Sum>item\<leftarrow>items. valor (preco (item_produto item)) * of_int (quantidade item))"
  by (induction items arbitrary: v)
     (simp_all add: Let_def case_prod_beta valor_plus valor_times)

section \<open>The claims\<close>

text \<open>
  C1, as the spec states it, fails: a cart can be non-empty and yet yield no purchase. With
  one product at 99999999.99 taken twice the total, 199999999.98, does not fit the
  \<open>DECIMAL(10,2)\<close> column \<open>valor_total\<close>; the insert is rejected, the answer is 400 and
  nothing is stored.
\<close>

theorem sair_total_overflow_counterexample:
  "fk_carrinhos_produtos db_estouro \<and> itens_do_cliente 3 db_estouro \<noteq> [] \<and>
   spec_total_centavos 3 db_estouro = 19999999998 \<and>
   sair no_faults 0 1 3 db_estouro =
     (db_estouro, Response 400 (ObjectJson [(''error'', msg_numeric_overflow)]))"
  by (simp add: sair_defs db_estouro_def no_faults_def itens_do_cliente_def
      fk_carrinhos_produtos_def spec_total_centavos_def plus_decimal_def times_decimal_def
      int4_def cabe_decimal_10_2_def)

text \<open>
  C1, amended. For every non-empty cart whose total fits \<open>valor_total\<close>,
  \<open>POST /simulacao/sair\<close> answers 201 with a purchase whose total is the sum of unit price
  times quantity over the shopper's cart lines, priced from the catalog; the same total is
  the sum over the purchase's stored lines; and the stored lines are the snapshots of those
  cart lines, in order. The store completes its calls (\<open>no_faults\<close>), the shopper id is an
  \<open>INTEGER\<close> and the cart rows keep their foreign key. In the scenario of 799.90 once and
  499.90 twice the total is 1799.70.
\<close>

theorem sair_total_is_exact_sum:
  assumes fk: "fk_carrinhos_produtos d"
      and ne: "itens_do_cliente clienteId d \<noteq> []"
      and id: "int4 clienteId"
      and cabe: "cabe_decimal_10_2 (Centavos (spec_total_centavos clienteId d))"
  shows "\<exists>d' c. sair no_faults agora novoId clienteId d = (d', Response 201 (CompraJson c)) \<and>
           valorTotal c = Centavos (spec_total_centavos clienteId d) \<and>
           centavos (valorTotal c) = sum_list (map subtotal_centavos (itensComprados c)) \<and>
           map Some (itensComprados c) =
             map (spec_snapshot (produtos d)) (itens_do_cliente clienteId d)"
proof -
  from fk obtain js where js: "include_produto (produtos d) (itens_do_cliente clienteId d) = Inr js"
    using fk_itens_do_cliente by blast
  from js ne have nz: "js \<noteq> []" using include_produto_length by fastforce
  have tot: "snd (map_itens js (Centavos 0)) = Centavos (spec_total_centavos clienteId d)"
    by (rule map_itens_spec_total[OF js])
  with cabe have cb: "cabe_decimal_10_2 (snd (map_itens js (Centavos 0)))" by simp
  have nf: "no_faults FindMany = None" "no_faults Create = None" "no_faults DeleteMany = None"
    by (simp_all add: no_faults_def)
  note s = sair_sucesso[OF id nf js nz cb, of agora novoId]
  have t: "centavos (snd (map_itens js (Centavos 0))) =
        sum_list (map subtotal_centavos (fst (map_itens js (Centavos 0))))"
    by (simp add: map_itens_snd map_itens_fst)
  have r: "map Some (fst (map_itens js (Centavos 0))) =
        map (spec_snapshot (produtos d)) (itens_do_cliente clienteId d)"
    using include_produto_snapshot[OF js] by (simp add: map_itens_fst)
  from s tot t r show ?thesis by simp
qed

theorem sair_total_is_exact_sum_witness:
  "fk_carrinhos_produtos db_cenario \<and> itens_do_cliente 3 db_cenario \<noteq> [] \<and> int4 3 \<and>
   cabe_decimal_10_2 (Centavos (spec_total_centavos 3 db_cenario)) \<and>
   spec_total_centavos 3 db_cenario = 179970 \<and>
   (\<exists>d' c. sair no_faults 0 1 3 db_cenario = (d', Response 201 (CompraJson c)) \<and>
      valorTotal c = Centavos 179970 \<and> itensComprados c = linhas_cenario \<and>
      centavos (valorTotal c) = sum_list (map subtotal_centavos (itensComprados c)))"
proof -
  have fk: "fk_carrinhos_produtos db_cenario"
    by (simp add: cenario_defs)
  have ne: "itens_do_cliente 3 db_cenario \<noteq> []"
    by (simp add: cenario_defs)
  have id: "int4 3" by (simp add: int4_def)
  have st: "spec_total_centavos 3 db_cenario = 179970"
    by (simp add: spec_total_centavos_def cenario_defs)
  then have cb: "cabe_decimal_10_2 (Centavos (spec_total_centavos 3 db_cenario))"
    by (simp add: cabe_decimal_10_2_def)
  from sair_total_is_exact_sum[OF fk ne id cb, of 0 1]
  obtain d' c where c: "sair no_faults 0 1 3 db_cenario = (d', Response 201 (CompraJson c))"
    and v: "valorTotal c = Centavos (spec_total_centavos 3 db_cenario)"
    and s: "centavos (valorTotal c) = sum_list (map subtotal_centavos (itensComprados c))"
    by blast
  have l: "itensComprados c = linhas_cenario"
    using c by (auto simp add: sair_defs cenario_defs linhas_cenario_def)
  from fk ne id cb st c v s l show ?thesis by auto
qed

text \<open>
  C2. When the shopper has no cart row at the time of the read (and the read itself completes),
  the handler fails with the empty-cart error, answered as 400 with its message, and the
  database it leaves is the one it found: no purchase is added and no cart row is touched.
  An id that is not an \<open>INTEGER\<close> is no shopper's: the read is refused, still with 400 and
  the database as found.
\<close>

theorem sair_empty_cart_fails_unchanged:
  assumes "f FindMany = None" and "itens_do_cliente clienteId d = []"
  shows "fst (sair f agora novoId clienteId d) = d \<and>
         status (snd (sair f agora novoId clienteId d)) = 400 \<and>
         (int4 clienteId \<longrightarrow>
            sair f agora novoId clienteId d =
              (d, Response 400 (ObjectJson [(''error'', msg_carrinho_vazio)])))"
proof (cases "int4 clienteId")
  case True
  with assms sair_vazio[of clienteId f d agora novoId] show ?thesis by simp
next
  case False
  with sair_fora_int4[of clienteId f agora novoId d] show ?thesis by simp
qed

theorem sair_empty_cart_fails_unchanged_witness:
  "no_faults FindMany = None \<and> itens_do_cliente 1 db_cenario = [] \<and> int4 1 \<and>
   sair no_faults 0 1 1 db_cenario =
     (db_cenario, Response 400 (ObjectJson [(''error'', msg_carrinho_vazio)])) \<and>
   compras (fst (sair no_faults 0 1 1 db_cenario)) = [] \<and>
   carrinhos (fst (sair no_faults 0 1 1 db_cenario)) = carrinhos db_cenario"
proof -
  have a: "no_faults FindMany = None" by (simp add: no_faults_def)
  have b: "itens_do_cliente 1 db_cenario = []" by (simp add: cenario_defs)
  have i: "int4 1" by (simp add: int4_def)
  have c: "compras db_cenario = []" by (simp add: db_cenario_def)
  from sair_empty_cart_fails_unchanged[of no_faults 1 db_cenario 0 1] a b c i
  show ?thesis by simp
qed



text \<open>
  C4. After a call that answers 201, the shopper has no cart row, and reading the cart again
  (\<open>findMany\<close> with the same \<open>where\<close>) returns the empty list.
\<close>

theorem sair_success_clears_cart:
  assumes "sair f agora novoId clienteId d = (d', Response 201 b)"
  shows "itens_do_cliente clienteId d' = [] \<and>
         carrinhoItem_findMany no_faults clienteId d' = (d', Inr [])"
proof -
  from assms obtain js where id: "int4 clienteId"
    and d': "d' = d\<lparr> compras := compras d @ [\<lparr> compra_id = novoId, compra_clienteId = clienteId,
                 data = agora, valorTotal = snd (map_itens js (Centavos 0)),
                 itensComprados = fst (map_itens js (Centavos 0)) \<rparr>],
               carrinhos := filter (\<lambda>i. item_clienteId i \<noteq> clienteId) (carrinhos d) \<rparr>"
    by (rule sair_201)
  from d' have "itens_do_cliente clienteId d' = []"
    by (simp add: itens_do_cliente_def filter_empty_conv)
  with id show ?thesis by (simp add: carrinhoItem_findMany_def no_faults_def)
qed

theorem sair_success_clears_cart_witness:
  "(\<exists>d' b. sair no_faults 0 1 3 db_cenario = (d', Response 201 b) \<and>
      itens_do_cliente 3 db_cenario \<noteq> [] \<and>
      itens_do_cliente 3 d' = [] \<and> carrinhoItem_findMany no_faults 3 d' = (d', Inr []))"
proof -
  obtain d' b where e: "sair no_faults 0 1 3 db_cenario = (d', Response 201 b)"
    by (simp add: sair_defs cenario_defs)
  have "itens_do_cliente 3 db_cenario \<noteq> []" by (simp add: cenario_defs)
  with sair_success_clears_cart[OF e] e show ?thesis by blast
qed

text \<open>
  C5. A purchase is stored by value. After a call that answers 201, replacing the catalog by
  any other list of products leaves the \<open>compras\<close> rows as they were; each stored line
  holds the id, name and price the catalog had when the cart was read; and whatever call
  comes later, the rows already in \<open>compras\<close> stay as they are. In the scenario the price of
  product 1 goes from 799.90 to 899.90 and the stored line still reads 799.90, the total
  1799.70.
\<close>

theorem compra_snapshot_survives_catalog_change:
  assumes "sair f agora novoId clienteId d = (d', Response 201 (CompraJson c))"
  shows "compras (d'\<lparr> produtos := ps' \<rparr>) = compras d @ [c] \<and>
         (\<forall>l \<in> set (itensComprados c).
            find (\<lambda>p. produto_id p = ic_id l) (produtos d) =
              Some \<lparr> produto_id = ic_id l, produto_nome = ic_nome l, preco = ic_preco l \<rparr>) \<and>
         (\<forall>g a2 n2 k d'' r. sair g a2 n2 k (d'\<lparr> produtos := ps' \<rparr>) = (d'', r) \<longrightarrow>
            take (length (compras d')) (compras d'') = compras d @ [c])"
proof -
  from sair_efeito[OF assms] have cs: "compras d' = compras d @ [c]" by auto
  from assms obtain js
    where js: "include_produto (produtos d) (itens_do_cliente clienteId d) = Inr js"
      and b: "CompraJson c = CompraJson \<lparr> compra_id = novoId, compra_clienteId = clienteId,
                 data = agora, valorTotal = snd (map_itens js (Centavos 0)),
                 itensComprados = fst (map_itens js (Centavos 0)) \<rparr>"
    by (rule sair_201)
  from b have ic: "itensComprados c = map item_comprado js"
    by (simp add: map_itens_fst)
  have snap: "find (\<lambda>p. produto_id p = ic_id l) (produtos d) =
              Some \<lparr> produto_id = ic_id l, produto_nome = ic_nome l, preco = ic_preco l \<rparr>"
    if "l \<in> set (itensComprados c)" for l
  proof -
    from that ic obtain j where j: "j \<in> set js" "l = item_comprado j" by auto
    from include_produto_catalogo[OF js j(1)] include_produto_id[OF js j(1)] j(2)
    show ?thesis by (simp add: item_comprado_def)
  qed
  have later: "take (length (compras d')) (compras d'') = compras d @ [c]"
    if "sair g a2 n2 k (d'\<lparr> produtos := ps' \<rparr>) = (d'', r)" for g a2 n2 k d'' r
    using sair_efeito[OF that] cs by auto
  from cs snap later show ?thesis by simp
qed

theorem compra_snapshot_survives_catalog_change_witness:
  "(\<exists>d' c. sair no_faults 0 1 3 db_cenario = (d', Response 201 (CompraJson c)) \<and>
      compras (d'\<lparr> produtos := produtos_reajustados \<rparr>) = [c] \<and>
      map preco (produtos (d'\<lparr> produtos := produtos_reajustados \<rparr>)) =
        [Centavos 89990, Centavos 49990] \<and>
      map ic_preco (itensComprados c) = [Centavos 79990, Centavos 49990] \<and>
      valorTotal c = Centavos 179970)"
proof -
  obtain d' c where e: "sair no_faults 0 1 3 db_cenario = (d', Response 201 (CompraJson c))"
    by (simp add: sair_defs cenario_defs)
  from compra_snapshot_survives_catalog_change[OF e, of produtos_reajustados]
  have k: "compras (d'\<lparr> produtos := produtos_reajustados \<rparr>) = compras db_cenario @ [c]"
    by blast
  have v: "map ic_preco (itensComprados c) = [Centavos 79990, Centavos 49990]"
    "valorTotal c = Centavos 179970"
    using e by (auto simp add: sair_defs cenario_defs)
  have p: "map preco (produtos (d'\<lparr> produtos := produtos_reajustados \<rparr>)) =
        [Centavos 89990, Centavos 49990]"
    by (simp add: produtos_reajustados_def)
  from e k v p show ?thesis by (simp add: db_cenario_def)
qed

text \<open>
  C6, as the spec states it, fails: the body of a failure is the object
  \<open>{ error: message }\<close> and none of its fields holds \<open>EMPTY_CART\<close>, \<open>NOT_FOUND\<close> or
  \<open>INTERNAL\<close>; and a call whose \<open>compra.create\<close> is rejected by the store is answered
  with 400, which is not a server-error status.
\<close>

theorem sair_error_kind_counterexample:
  "snd (sair no_faults 0 1 1 db_cenario) =
     Response 400 (ObjectJson [(''error'', msg_carrinho_vazio)]) \<and>
   \<not> spec_carries_kind (body (snd (sair no_faults 0 1 1 db_cenario))) \<and>
   snd (sair create_falha 0 1 3 db_cenario) =
     Response 400 (ObjectJson [(''error'', ''Can't reach database server'')]) \<and>
   \<not> spec_carries_kind (body (snd (sair create_falha 0 1 3 db_cenario))) \<and>
   \<not> spec_server_error (status (snd (sair create_falha 0 1 3 db_cenario)))"
  by (simp add: sair_defs cenario_defs create_falha_def spec_kinds_def spec_server_error_def
      msg_carrinho_vazio_def)

text \<open>
  C6, amended. Every answer other than 201 has as its body an object with the single field
  \<open>error\<close>, and that field holds the message of the error the callback threw: the message
  the store gave when \<open>findMany\<close>, \<open>create\<close> or \<open>deleteMany\<close> failed, or the empty-cart
  message. The empty-cart failure is answered with the client-error status 400.
\<close>

theorem sair_failure_is_error_object:
  assumes "sair f agora novoId clienteId d = (d', r)" and "status r \<noteq> 201"
  shows "(\<exists>e. snd (sair_tx f agora novoId clienteId d) = Inl e \<and>
              body r = ObjectJson [(''error'', message e)]) \<and>
         (int4 clienteId \<and> f FindMany = Some mf \<longrightarrow> body r = ObjectJson [(''error'', mf)]) \<and>
         (int4 clienteId \<and> f FindMany = None \<and> itens_do_cliente clienteId d = [] \<longrightarrow>
            r = Response 400 (ObjectJson [(''error'', msg_carrinho_vazio)]) \<and>
            spec_client_error (status r)) \<and>
         (int4 clienteId \<and> f FindMany = None \<and> fk_carrinhos_produtos d \<and>
          itens_do_cliente clienteId d \<noteq> [] \<and> f Create = Some mc \<longrightarrow>
            body r = ObjectJson [(''error'', mc)]) \<and>
         (int4 clienteId \<and> f FindMany = None \<and> fk_carrinhos_produtos d \<and>
          itens_do_cliente clienteId d \<noteq> [] \<and> f Create = None \<and>
          cabe_decimal_10_2 (Centavos (spec_total_centavos clienteId d)) \<and>
          f DeleteMany = Some md \<longrightarrow>
            body r = ObjectJson [(''error'', md)])"
proof -
  have thrown: "\<exists>e. snd (sair_tx f agora novoId clienteId d) = Inl e \<and>
                    body r = ObjectJson [(''error'', message e)]"
  proof (cases "sair_tx f agora novoId clienteId d")
    case (Pair d1 res)
    show ?thesis
    proof (cases res)
      case (Inl e)
      with Pair assms(1) show ?thesis by (auto simp: sair_por_tx)
    next
      case (Inr c)
      with Pair assms show ?thesis by (auto simp: sair_por_tx)
    qed
  qed
  have fm: "body r = ObjectJson [(''error'', mf)]" if "int4 clienteId" "f FindMany = Some mf"
    using that assms(1) sair_findMany_falha[of clienteId f mf agora novoId d] by auto
  have vz: "r = Response 400 (ObjectJson [(''error'', msg_carrinho_vazio)]) \<and>
            spec_client_error (status r)"
    if "int4 clienteId" "f FindMany = None" "itens_do_cliente clienteId d = []"
    using that assms(1) sair_vazio[of clienteId f d agora novoId]
    by (auto simp add: spec_client_error_def)
  have lido: "\<exists>js. include_produto (produtos d) (itens_do_cliente clienteId d) = Inr js \<and>
                js \<noteq> [] \<and> snd (map_itens js (Centavos 0)) = Centavos (spec_total_centavos clienteId d)"
    if "fk_carrinhos_produtos d" "itens_do_cliente clienteId d \<noteq> []"
  proof -
    from that(1) obtain js
      where js: "include_produto (produtos d) (itens_do_cliente clienteId d) = Inr js"
      using fk_itens_do_cliente by blast
    from js that(2) have "js \<noteq> []" using include_produto_length by fastforce
    with js map_itens_spec_total[OF js] show ?thesis by blast
  qed
  have cr: "body r = ObjectJson [(''error'', mc)]"
    if "int4 clienteId" "f FindMany = None" "fk_carrinhos_produtos d"
       "itens_do_cliente clienteId d \<noteq> []" "f Create = Some mc"
  proof -
    from lido[OF that(3,4)] obtain js
      where "include_produto (produtos d) (itens_do_cliente clienteId d) = Inr js" "js \<noteq> []"
      by blast
    from sair_create_falha[OF that(1,2) this that(5), of agora novoId] assms(1)
    show ?thesis by auto
  qed
  have dl: "body r = ObjectJson [(''error'', md)]"
    if "int4 clienteId" "f FindMany = None" "fk_carrinhos_produtos d"
       "itens_do_cliente clienteId d \<noteq> []" "f Create = None"
       "cabe_decimal_10_2 (Centavos (spec_total_centavos clienteId d))" "f DeleteMany = Some md"
  proof -
    from lido[OF that(3,4)] obtain js
      where js: "include_produto (produtos d) (itens_do_cliente clienteId d) = Inr js" "js \<noteq> []"
        and t: "snd (map_itens js (Centavos 0)) = Centavos (spec_total_centavos clienteId d)"
      by blast
    from t that(6) have "cabe_decimal_10_2 (snd (map_itens js (Centavos 0)))" by simp
    from sair_deleteMany_falha[OF that(1,2) js that(5) this that(7), of agora novoId] assms(1)
    show ?thesis by auto
  qed
  from thrown fm vz cr dl show ?thesis by blast
qed

theorem sair_failure_is_error_object_witness:
  "sair create_falha 0 1 3 db_cenario =
     (db_cenario, Response 400 (ObjectJson [(''error'', ''Can't reach database server'')])) \<and>
   status (Response 400 (ObjectJson [(''error'', ''Can't reach database server'')])) \<noteq> 201 \<and>
   int4 3 \<and> create_falha FindMany = None \<and> fk_carrinhos_produtos db_cenario \<and>
   itens_do_cliente 3 db_cenario \<noteq> [] \<and>
   create_falha Create = Some ''Can't reach database server'' \<and>
   snd (sair_tx create_falha 0 1 3 db_cenario) = Inl (PrismaError ''Can't reach database server'') \<and>
   body (Response 400 (ObjectJson [(''error'', ''Can't reach database server'')])) =
     ObjectJson [(''error'', ''Can't reach database server'')]"
proof -
  let ?r = "Response 400 (ObjectJson [(''error'', ''Can't reach database server'')])"
  have e: "sair create_falha 0 1 3 db_cenario = (db_cenario, ?r)"
    by (simp add: sair_defs cenario_defs create_falha_def)
  have s: "status ?r \<noteq> 201" by simp
  have h: "int4 3" "create_falha FindMany = None" "fk_carrinhos_produtos db_cenario"
    "itens_do_cliente 3 db_cenario \<noteq> []" "create_falha Create = Some ''Can't reach database server''"
    by (simp_all add: cenario_defs create_falha_def)
  have t: "snd (sair_tx create_falha 0 1 3 db_cenario) =
      Inl (PrismaError ''Can't reach database server'')"
    by (simp add: sair_defs cenario_defs create_falha_def)
  from sair_failure_is_error_object[OF e s, of _ "''Can't reach database server''"] h
  have "body ?r = ObjectJson [(''error'', ''Can't reach database server'')]" by blast
  with e s h t show ?thesis by blast
qed

text \<open>
  C7. On the decimal type as the spec describes it, adding two amounts and multiplying an
  amount by an integer quantity give exactly the sum and the product of the numbers they
  stand for, and the total the handler accumulates over any list of cart lines is exactly
  the sum of price times quantity, a whole number of hundredths.
\<close>

theorem decimal_arithmetic_is_exact:
  "valor (plus_decimal a b) = valor a + valor b \<and>
   valor (times_decimal a q) = valor a * of_int q \<and>
   valor (snd (map_itens items (Centavos 0))) =
     (\<Sum>item\<leftarrow>items. valor (preco (item_produto item)) * of_int (quantidade item)) \<and>
   (\<exists>n::int. valor (snd (map_itens items (Centavos 0))) = of_int n / 100)"
proof -
  have "valor (Centavos 0) = 0" by (simp add: valor_def)
  then have s: "valor (snd (map_itens items (Centavos 0))) =
     (\<Sum>item\<leftarrow>items. valor (preco (item_produto item)) * of_int (quantidade item))"
    by (simp add: valor_map_itens)
  have "valor (snd (map_itens items (Centavos 0))) =
      of_int (centavos (snd (map_itens items (Centavos 0)))) / 100"
    by (simp only: valor_def)
  then have "\<exists>n::int. valor (snd (map_itens items (Centavos 0))) = of_int n / 100" ..
  with s show ?thesis by (simp only: valor_plus valor_times simp_thms)
qed

theorem decimal_arithmetic_is_exact_witness:
  "valor (times_decimal (Centavos 49990) 2) = 9998 / 10 \<and>
   valor (plus_decimal (Centavos 79990) (Centavos 99980)) = 17997 / 10 \<and>
   valor (Centavos 79990) + valor (Centavos 49990) * 2 = 17997 / 10"
  using decimal_arithmetic_is_exact[of "Centavos 79990" "Centavos 99980" 2 "[]"]
    decimal_arithmetic_is_exact[of "Centavos 49990" "Centavos 0" 2 "[]"]
  by (simp add: valor_def)

text \<open>
  C8. The total is accumulated line by line in the order \<open>findMany\<close> returns the rows, and
  that order does not matter. If a call answers 201, its total is the sum of unit price times
  quantity over every cart line of the shopper and its stored lines are the snapshots of
  those cart lines, one for each, in the order read; and the same call on any reordering of
  the \<open>carrinhos\<close> rows answers 201 with the same total and with the snapshots of the
  reordered lines.
\<close>

theorem sair_total_independent_of_order:
  assumes perm: "mset cs = mset (carrinhos d)"
      and ok: "sair f agora novoId clienteId d = (d1, Response 201 (CompraJson c1))"
  shows "\<exists>d2 c2. sair f agora novoId clienteId (d\<lparr> carrinhos := cs \<rparr>) =
                    (d2, Response 201 (CompraJson c2)) \<and>
           valorTotal c2 = valorTotal c1 \<and>
           valorTotal c1 = Centavos (spec_total_centavos clienteId d) \<and>
           map Some (itensComprados c1) =
             map (spec_snapshot (produtos d)) (itens_do_cliente clienteId d) \<and>
           map Some (itensComprados c2) =
             map (spec_snapshot (produtos d)) (filter (\<lambda>i. item_clienteId i = clienteId) cs) \<and>
           mset (itensComprados c2) = mset (itensComprados c1) \<and>
           length (itensComprados c1) = length (itens_do_cliente clienteId d)"
proof -
  from ok obtain js where id: "int4 clienteId"
    and nf: "f FindMany = None" "f Create = None" "f DeleteMany = None"
    and js: "include_produto (produtos d) (itens_do_cliente clienteId d) = Inr js"
    and ne: "js \<noteq> []"
    and cb: "cabe_decimal_10_2 (snd (map_itens js (Centavos 0)))"
    and b: "CompraJson c1 = CompraJson \<lparr> compra_id = novoId, compra_clienteId = clienteId,
                 data = agora, valorTotal = snd (map_itens js (Centavos 0)),
                 itensComprados = fst (map_itens js (Centavos 0)) \<rparr>"
    by (rule sair_201)
  from b have c1: "c1 = \<lparr> compra_id = novoId, compra_clienteId = clienteId, data = agora,
                  valorTotal = snd (map_itens js (Centavos 0)),
                  itensComprados = fst (map_itens js (Centavos 0)) \<rparr>"
    by simp
  let ?d = "d\<lparr> carrinhos := cs \<rparr>"
  have rows: "itens_do_cliente clienteId ?d = filter (\<lambda>i. item_clienteId i = clienteId) cs"
    by (simp add: itens_do_cliente_def)
  have "mset (itens_do_cliente clienteId ?d) = mset (itens_do_cliente clienteId d)"
    using perm by (simp add: itens_do_cliente_def)
  from include_produto_perm[OF this js]
  obtain js' where js': "include_produto (produtos ?d) (itens_do_cliente clienteId ?d) = Inr js'"
    and m: "mset js' = mset js"
    by auto
  from m ne have ne': "js' \<noteq> []" by auto
  have eqc: "centavos (snd (map_itens js' (Centavos 0))) = centavos (snd (map_itens js (Centavos 0)))"
    by (simp only: map_itens_total_mset m)
  then have eqt: "snd (map_itens js' (Centavos 0)) = snd (map_itens js (Centavos 0))"
    by (rule decimal.expand)
  with cb have cb': "cabe_decimal_10_2 (snd (map_itens js' (Centavos 0)))" by simp
  let ?c2 = "\<lparr> compra_id = novoId, compra_clienteId = clienteId, data = agora,
                valorTotal = snd (map_itens js' (Centavos 0)),
                itensComprados = fst (map_itens js' (Centavos 0)) \<rparr>"
  have s2: "sair f agora novoId clienteId ?d =
      (?d\<lparr> compras := compras ?d @ [?c2],
           carrinhos := filter (\<lambda>i. item_clienteId i \<noteq> clienteId) (carrinhos ?d) \<rparr>,
       Response 201 (CompraJson ?c2))"
    by (rule sair_sucesso[OF id nf js' ne' cb'])
  have t: "valorTotal ?c2 = valorTotal c1"
    using eqt by (simp add: c1)
  have t1: "valorTotal c1 = Centavos (spec_total_centavos clienteId d)"
    using map_itens_spec_total[OF js] by (simp add: c1)
  have l1: "map Some (itensComprados c1) =
             map (spec_snapshot (produtos d)) (itens_do_cliente clienteId d)"
    using include_produto_snapshot[OF js] by (simp add: c1 map_itens_fst)
  have l2: "map Some (itensComprados ?c2) =
             map (spec_snapshot (produtos d)) (filter (\<lambda>i. item_clienteId i = clienteId) cs)"
    using include_produto_snapshot[OF js'] rows by (simp add: map_itens_fst)
  have "mset (map item_comprado js') = mset (map item_comprado js)"
    using m by (metis mset_map)
  then have i: "mset (itensComprados ?c2) = mset (itensComprados c1)"
    by (simp add: c1 map_itens_fst)
  have l: "length (itensComprados c1) = length (itens_do_cliente clienteId d)"
    using include_produto_length[OF js] by (simp add: c1 map_itens_fst)
  from s2 t t1 l1 l2 i l show ?thesis by blast
qed

theorem sair_total_independent_of_order_witness:
  "mset (rev (carrinhos db_cenario)) = mset (carrinhos db_cenario) \<and>
   rev (carrinhos db_cenario) \<noteq> carrinhos db_cenario \<and>
   spec_total_centavos 3 db_cenario = 179970 \<and>
   (\<exists>d1 c1 d2 c2.
      sair no_faults 0 1 3 db_cenario = (d1, Response 201 (CompraJson c1)) \<and>
      sair no_faults 0 1 3 (db_cenario\<lparr> carrinhos := rev (carrinhos db_cenario) \<rparr>) =
        (d2, Response 201 (CompraJson c2)) \<and>
      valorTotal c2 = valorTotal c1 \<and> valorTotal c1 = Centavos 179970 \<and>
      itensComprados c1 = linhas_cenario \<and>
      itensComprados c2 = rev linhas_cenario)"
proof -
  have p: "mset (rev (carrinhos db_cenario)) = mset (carrinhos db_cenario)" by simp
  have q: "rev (carrinhos db_cenario) \<noteq> carrinhos db_cenario" by (simp add: db_cenario_def)
  have st: "spec_total_centavos 3 db_cenario = 179970"
    by (simp add: spec_total_centavos_def cenario_defs)
  obtain d1 c1 where e1: "sair no_faults 0 1 3 db_cenario = (d1, Response 201 (CompraJson c1))"
    by (simp add: sair_defs cenario_defs)
  from sair_total_independent_of_order[OF p e1]
  obtain d2 c2 where e2: "sair no_faults 0 1 3 (db_cenario\<lparr> carrinhos := rev (carrinhos db_cenario) \<rparr>) =
        (d2, Response 201 (CompraJson c2))" and t: "valorTotal c2 = valorTotal c1"
      and t1: "valorTotal c1 = Centavos (spec_total_centavos 3 db_cenario)"
    by blast
  have l1: "itensComprados c1 = linhas_cenario"
    using e1 by (auto simp add: sair_defs cenario_defs linhas_cenario_def)
  have l2: "itensComprados c2 = rev linhas_cenario"
    using e2 by (auto simp add: sair_defs cenario_defs linhas_cenario_def)
  from p q st e1 e2 t t1 l1 l2 show ?thesis by auto
qed

text \<open>
  C9, as the spec states it, fails. When two calls for client 3 overlap over the cart of the
  scenario, both answer 201 and \<open>compras\<close> receives two purchases with the same lines and
  the same total; neither call gets the empty-cart error.
\<close>

theorem sair_overlapping_calls_counterexample:
  "sair_sobrepostas no_faults no_faults 0 1 2 3 db_cenario =
     (db_cenario
        \<lparr> compras :=
            [\<lparr> compra_id = 1, compra_clienteId = 3, data = 0, valorTotal = Centavos 179970,
               itensComprados = linhas_cenario \<rparr>,
             \<lparr> compra_id = 2, compra_clienteId = 3, data = 0, valorTotal = Centavos 179970,
               itensComprados = linhas_cenario \<rparr>],
          carrinhos := [] \<rparr>,
      Response 201 (CompraJson
        \<lparr> compra_id = 1, compra_clienteId = 3, data = 0, valorTotal = Centavos 179970,
          itensComprados = linhas_cenario \<rparr>),
      Response 201 (CompraJson
        \<lparr> compra_id = 2, compra_clienteId = 3, data = 0, valorTotal = Centavos 179970,
          itensComprados = linhas_cenario \<rparr>))"
  by (simp add: sair_sobrepostas_def sair_leitura_def sair_escrita_def sair_resposta_def
      sair_defs cenario_defs linhas_cenario_def)

text \<open>
  C9, amended. Two calls for the same shopper over one non-empty cart that do not overlap,
  the second reading the cart after the first has committed, result in exactly one purchase
  and one empty-cart error: when the first call answers 201, it has appended one purchase,
  and the second call (its read completing) answers 400 with the empty-cart message and
  changes nothing.
\<close>

theorem sair_twice_in_sequence:
  assumes "sair fA agoraA novoIdA clienteId d = (d1, Response 201 (CompraJson c))"
      and "fB FindMany = None"
  shows "compras d1 = compras d @ [c] \<and>
         sair fB agoraB novoIdB clienteId d1 =
           (d1, Response 400 (ObjectJson [(''error'', msg_carrinho_vazio)]))"
proof -
  from sair_efeito[OF assms(1)] have cs: "compras d1 = compras d @ [c]" by auto
  from assms(1) obtain js where id: "int4 clienteId"
    and d1: "d1 = d\<lparr> compras := compras d @ [\<lparr> compra_id = novoIdA, compra_clienteId = clienteId,
                 data = agoraA, valorTotal = snd (map_itens js (Centavos 0)),
                 itensComprados = fst (map_itens js (Centavos 0)) \<rparr>],
               carrinhos := filter (\<lambda>i. item_clienteId i \<noteq> clienteId) (carrinhos d) \<rparr>"
    by (rule sair_201)
  from d1 have "itens_do_cliente clienteId d1 = []"
    by (simp add: itens_do_cliente_def filter_empty_conv)
  then have "include_produto (produtos d1) (itens_do_cliente clienteId d1) = Inr []" by simp
  with id assms(2) sair_vazio[of clienteId fB d1 agoraB novoIdB] cs show ?thesis by simp
qed

theorem sair_twice_in_sequence_witness:
  "no_faults FindMany = None \<and>
   (\<exists>d1 c. sair no_faults 0 1 3 db_cenario = (d1, Response 201 (CompraJson c)) \<and>
      compras d1 = [c] \<and> itensComprados c = linhas_cenario \<and>
      sair no_faults 0 2 3 d1 =
        (d1, Response 400 (ObjectJson [(''error'', msg_carrinho_vazio)])))"
proof -
  have a: "no_faults FindMany = None" by (simp add: no_faults_def)
  obtain d1 c where e: "sair no_faults 0 1 3 db_cenario = (d1, Response 201 (CompraJson c))"
    by (simp add: sair_defs cenario_defs)
  have l: "itensComprados c = linhas_cenario"
    using e by (auto simp add: sair_defs cenario_defs linhas_cenario_def)
  have k: "compras db_cenario = []" by (simp add: db_cenario_def)
  from sair_twice_in_sequence[of no_faults 0 1 3 db_cenario d1 c no_faults 0 2] a e l k
  show ?thesis by auto
qed

text \<open>
  C10, as stated, fails for an id that is no \<open>INTEGER\<close>. The id 2147483648 has no cart
  line and is absent from \<open>clientes\<close>, yet the answer is not the empty-cart error that
  client 1, present with an empty cart, gets: the read is refused with its own error.
\<close>

theorem sair_id_beyond_int4_counterexample:
  "itens_do_cliente 2147483648 db_cenario = [] \<and>
   2147483648 \<notin> cliente_id ` set (clientes db_cenario) \<and>
   sair no_faults 0 1 2147483648 db_cenario =
     (db_cenario, Response 400 (ObjectJson [(''error'', msg_fora_int4)])) \<and>
   sair no_faults 0 1 1 db_cenario =
     (db_cenario, Response 400 (ObjectJson [(''error'', msg_carrinho_vazio)])) \<and>
   msg_fora_int4 \<noteq> msg_carrinho_vazio"
  by (simp add: sair_defs cenario_defs msg_fora_int4_def msg_carrinho_vazio_def)

text \<open>
  C10, amended. The handler never looks at \<open>clientes\<close>. For a shopper id without cart rows,
  whatever the \<open>clientes\<close> table holds, the answer has status 400, never 404, and the
  database is left as found; when the id is an \<open>INTEGER\<close> and the read completes, the
  answer is the empty-cart error, the same for an id absent from \<open>clientes\<close> as for a
  client with an empty cart.
\<close>

theorem sair_unknown_shopper_is_empty_cart:
  assumes "itens_do_cliente clienteId d = []"
  shows "fst (sair f agora novoId clienteId (d\<lparr> clientes := cl \<rparr>)) = d\<lparr> clientes := cl \<rparr> \<and>
         status (snd (sair f agora novoId clienteId (d\<lparr> clientes := cl \<rparr>))) = 400 \<and>
         (int4 clienteId \<and> f FindMany = None \<longrightarrow>
            snd (sair f agora novoId clienteId (d\<lparr> clientes := cl \<rparr>)) =
              Response 400 (ObjectJson [(''error'', msg_carrinho_vazio)]))"
proof -
  let ?d = "d\<lparr> clientes := cl \<rparr>"
  have "itens_do_cliente clienteId ?d = []"
    using assms by (simp add: itens_do_cliente_def)
  then have inc: "include_produto (produtos ?d) (itens_do_cliente clienteId ?d) = Inr []"
    by simp
  from sair_falha_ou_sucesso[of f agora novoId clienteId ?d] inc
  obtain m where "sair f agora novoId clienteId ?d = (?d, Response 400 (ObjectJson [(''error'', m)]))"
    by auto
  then have a: "fst (sair f agora novoId clienteId ?d) = ?d"
    and b: "status (snd (sair f agora novoId clienteId ?d)) = 400"
    by simp_all
  have "snd (sair f agora novoId clienteId ?d) =
          Response 400 (ObjectJson [(''error'', msg_carrinho_vazio)])"
    if "int4 clienteId" "f FindMany = None"
    using that inc sair_vazio[of clienteId f ?d agora novoId] by simp
  with a b show ?thesis by blast
qed

theorem sair_unknown_shopper_is_empty_cart_witness:
  "itens_do_cliente 99 db_cenario = [] \<and> int4 99 \<and> no_faults FindMany = None \<and>
   99 \<notin> cliente_id ` set (clientes db_cenario) \<and>
   1 \<in> cliente_id ` set (clientes db_cenario) \<and>
   sair no_faults 0 1 99 db_cenario =
     (db_cenario, Response 400 (ObjectJson [(''error'', msg_carrinho_vazio)])) \<and>
   snd (sair no_faults 0 1 99 db_cenario) = snd (sair no_faults 0 1 1 db_cenario)"
proof -
  have a: "no_faults FindMany = None" by (simp add: no_faults_def)
  have b: "itens_do_cliente 99 db_cenario = []" by (simp add: cenario_defs)
  have i: "int4 99" by (simp add: int4_def)
  have c: "99 \<notin> cliente_id ` set (clientes db_cenario)" "1 \<in> cliente_id ` set (clientes db_cenario)"
    by (simp_all add: db_cenario_def)
  have d: "db_cenario\<lparr> clientes := clientes db_cenario \<rparr> = db_cenario" by simp
  have e: "snd (sair no_faults 0 1 1 db_cenario) =
      Response 400 (ObjectJson [(''error'', msg_carrinho_vazio)])"
    by (simp add: sair_defs cenario_defs)
  from sair_unknown_shopper_is_empty_cart[OF b, of no_faults 0 1 "clientes db_cenario"]
  have "fst (sair no_faults 0 1 99 db_cenario) = db_cenario"
    and "snd (sair no_faults 0 1 99 db_cenario) =
      Response 400 (ObjectJson [(''error'', msg_carrinho_vazio)])"
    using a i d by simp_all
  then have "sair no_faults 0 1 99 db_cenario =
     (db_cenario, Response 400 (ObjectJson [(''error'', msg_carrinho_vazio)]))"
    by (simp add: prod_eq_iff)
  with a b i c e show ?thesis by simp
qed

end
